theory Spec2Isabelle
  imports Main
begin

section \<open>The element type\<close>

text \<open>
  \<open>SimpleVector<Type>\<close> and \<open>ArrayPtr<Type>\<close> are templates. What the container
  code needs of \<open>Type\<close> is the value of \<open>Type()\<close>, what \<open>new Type[n]\<close> leaves
  in slot \<open>i\<close> of the new array (\<open>fresh i\<close>: \<open>Type()\<close> for a class with a default
  constructor, an indeterminate value for a scalar type), the copy of a value (copy
  construction, copy assignment) and the move assignment \<open>*dst = std::move(*src)\<close>;
  a copy and a move may throw. An element is a plain value here: an assignment that
  succeeds stores the source value and leaves the source as it is (for a move this is
  exact for scalar types such as \<open>int\<close>); \<open>copy_throws x\<close> says that copying the
  value \<open>x\<close> throws, \<open>move_throws x\<close> that moving it does. Sizes and offsets are
  \<open>size_t\<close> in the source and \<open>nat\<close> here: a buffer of \<open>n\<close> elements exists in
  memory, so \<open>n * 2 + 1\<close> stays below \<open>2 ^ 64\<close> and no operation of the source
  wraps. Releasing storage (\<open>delete[]\<close>) is outside the model.
\<close>

record 'a elem =
  dflt :: 'a
  fresh :: "nat \<Rightarrow> 'a"
  copy_throws :: "'a \<Rightarrow> bool"
  move_throws :: "'a \<Rightarrow> bool"

datatype error =
    OutOfRange    \<comment> \<open>\<open>std::out_of_range\<close> thrown by \<open>At\<close>\<close>
  | ElemThrow     \<comment> \<open>an exception thrown by an operation of \<open>Type\<close>\<close>
  | AssertFail    \<comment> \<open>an \<open>assert\<close> of the source is violated\<close>
  | OutOfBounds   \<comment> \<open>an access outside the held allocation: undefined behaviour\<close>
  | UseAfterFree  \<comment> \<open>a read through a reference into a deleted array: undefined behaviour\<close>

section \<open>Algorithms of the standard library on raw storage\<close>

text \<open>
  A buffer is the list of the slots of one allocation; a raw pointer into it is an
  offset. Every read and write checks the offset against the allocation.

  \<open>std::generate(first, last, g)\<close>: \<open>for (; first != last; ++first) *first = g();\<close>
  The generator \<open>g\<close> returns the same value at every call, or throws at every call;
  its result is move-assigned to the slot.
\<close>

function std_generate :: "'a elem \<Rightarrow> 'a list \<Rightarrow> nat \<Rightarrow> nat \<Rightarrow> error + 'a \<Rightarrow> error + 'a list" where
  "std_generate E buf first lst g =
     (if first = lst then Inr buf
      else if lst < first \<or> \<not> first < length buf then Inl OutOfBounds
      else case g of
        Inl e \<Rightarrow> Inl e
      | Inr x \<Rightarrow>
          if move_throws E x then Inl ElemThrow
          else std_generate E (buf[first := x]) (Suc first) lst g)"
  by pat_completeness auto
termination
  by (relation "measure (\<lambda>(E, buf, first, lst, g). lst - first)") auto

declare std_generate.simps [simp del]

text \<open>
  \<open>std::copy(first, last, d_first)\<close> and \<open>std::move(first, last, d_first)\<close> from one
  buffer into another: \<open>while (first != last) *d_first++ = *first++; return d_first;\<close>
  The two differ in the assignment they call, given here by \<open>thr\<close>.
\<close>

function assign_forward :: "('a \<Rightarrow> bool) \<Rightarrow> 'a list \<Rightarrow> nat \<Rightarrow> nat \<Rightarrow> 'a list \<Rightarrow> nat \<Rightarrow> error + ('a list \<times> nat)" where
  "assign_forward thr src first lst dst d_first =
     (if first = lst then Inr (dst, d_first)
      else if lst < first \<or> \<not> first < length src \<or> \<not> d_first < length dst then Inl OutOfBounds
      else if thr (src ! first) then Inl ElemThrow
      else assign_forward thr src (Suc first) lst (dst[d_first := src ! first]) (Suc d_first))"
  by pat_completeness auto
termination
  by (relation "measure (\<lambda>(thr, src, first, lst, dst, d_first). lst - first)") auto

declare assign_forward.simps [simp del]

definition std_copy :: "'a elem \<Rightarrow> 'a list \<Rightarrow> nat \<Rightarrow> nat \<Rightarrow> 'a list \<Rightarrow> nat \<Rightarrow> error + ('a list \<times> nat)" where
  "std_copy E = assign_forward (copy_throws E)"

definition std_move :: "'a elem \<Rightarrow> 'a list \<Rightarrow> nat \<Rightarrow> nat \<Rightarrow> 'a list \<Rightarrow> nat \<Rightarrow> error + ('a list \<times> nat)" where
  "std_move E = assign_forward (move_throws E)"

text \<open>
  \<open>std::copy_backward(first, last, d_last)\<close> and \<open>std::move_backward\<close> inside one
  buffer: \<open>while (first != last) *(--d_last) = *(--last);\<close>. The buffer is live
  storage, so the result keeps the buffer as it is when the loop stops, with the error
  that stopped it.
\<close>

function assign_backward :: "('a \<Rightarrow> bool) \<Rightarrow> nat \<Rightarrow> nat \<Rightarrow> nat \<Rightarrow> 'a list \<Rightarrow> error option \<times> 'a list" where
  "assign_backward thr first lst d_last buf =
     (if first = lst then (None, buf)
      else if lst < first \<or> d_last = 0 \<or> \<not> lst - 1 < length buf \<or> \<not> d_last - 1 < length buf
        then (Some OutOfBounds, buf)
      else if thr (buf ! (lst - 1)) then (Some ElemThrow, buf)
      else assign_backward thr first (lst - 1) (d_last - 1) (buf[d_last - 1 := buf ! (lst - 1)]))"
  by pat_completeness auto
termination
  by (relation "measure (\<lambda>(thr, first, lst, d_last, buf). lst - first)") auto

declare assign_backward.simps [simp del]

definition std_copy_backward :: "'a elem \<Rightarrow> nat \<Rightarrow> nat \<Rightarrow> nat \<Rightarrow> 'a list \<Rightarrow> error option \<times> 'a list" where
  "std_copy_backward E = assign_backward (copy_throws E)"

definition std_move_backward :: "'a elem \<Rightarrow> nat \<Rightarrow> nat \<Rightarrow> nat \<Rightarrow> 'a list \<Rightarrow> error option \<times> 'a list" where
  "std_move_backward E = assign_backward (move_throws E)"

section \<open>ArrayPtr\<close>

text \<open>
  The class itself: one member, the raw pointer, here the address of the array or
  \<open>None\<close> for \<open>nullptr\<close>. Objects live in a store from object addresses to objects,
  so that \<open>this != &other\<close> can be asked. The move constructor initialises the
  object at \<open>this\<close>; \<open>other.Get()\<close> returns the pointer by value, and
  \<open>std::move\<close> of that value is the value.
\<close>

record ArrayPtr =
  raw_ptr_m :: "nat option"

type_synonym ptr_store = "nat \<Rightarrow> ArrayPtr"

definition ArrayPtr_Get :: "ArrayPtr \<Rightarrow> nat option" where
  "ArrayPtr_Get p = raw_ptr_m p"

definition ArrayPtr_bool :: "ArrayPtr \<Rightarrow> bool" where
  "ArrayPtr_bool p = (if raw_ptr_m p = None then False else True)"

definition ArrayPtr_default :: ArrayPtr where
  "ArrayPtr_default = \<lparr>raw_ptr_m = None\<rparr>"

definition ArrayPtr_raw :: "nat option \<Rightarrow> ArrayPtr" where
  "ArrayPtr_raw raw_ptr = \<lparr>raw_ptr_m = raw_ptr\<rparr>"

definition ArrayPtr_move_ctor :: "nat \<Rightarrow> nat \<Rightarrow> ptr_store \<Rightarrow> ptr_store" where
  "ArrayPtr_move_ctor this other s = s(this := \<lparr>raw_ptr_m = ArrayPtr_Get (s other)\<rparr>)"

definition ArrayPtr_move_assign :: "nat \<Rightarrow> nat \<Rightarrow> ptr_store \<Rightarrow> ptr_store" where
  "ArrayPtr_move_assign this other s =
     (if this \<noteq> other then s(this := (s this)\<lparr>raw_ptr_m := ArrayPtr_Get (s other)\<rparr>)
      else s)"

definition ArrayPtr_Release :: "nat \<Rightarrow> ptr_store \<Rightarrow> nat option \<times> ptr_store" where
  "ArrayPtr_Release this s =
     (let tmp = raw_ptr_m (s this) in (tmp, s(this := (s this)\<lparr>raw_ptr_m := None\<rparr>)))"

definition ArrayPtr_swap :: "nat \<Rightarrow> nat \<Rightarrow> ptr_store \<Rightarrow> ptr_store" where
  "ArrayPtr_swap this other s =
     (let tmp = raw_ptr_m (s this);
          s1 = s(this := (s this)\<lparr>raw_ptr_m := raw_ptr_m (s other)\<rparr>)
      in s1(other := (s1 other)\<lparr>raw_ptr_m := tmp\<rparr>))"

subsection \<open>ArrayPtr as the storage of a vector\<close>

text \<open>
  \<open>explicit ArrayPtr(size_t size)\<close>: no allocation for \<open>size = 0\<close> (the empty list),
  otherwise \<open>new Type[size]\<close>, an array of \<open>size\<close> slots with the contents
  \<open>fresh\<close>, followed by \<open>std::generate\<close>, which writes \<open>Type()\<close> to every slot.
\<close>

definition ArrayPtr_size :: "'a elem \<Rightarrow> nat \<Rightarrow> error + 'a list" where
  "ArrayPtr_size E n =
     (if n = 0 then Inr []
      else std_generate E (map (fresh E) [0..<n]) 0 n (Inr (dflt E)))"

section \<open>SimpleVector\<close>

text \<open>
  The members \<open>data_\<close>, \<open>size_\<close> and \<open>capacity_\<close> (a name cannot end in an
  underscore here, hence the suffix).
\<close>

record 'a SimpleVector =
  data_m :: "'a list"
  size_m :: nat
  capacity_m :: nat

text \<open>
  A member function returns either \<open>Inr (r, v')\<close>, the value returned and the vector
  afterwards, or \<open>Inl (e, v')\<close>, the error that left the function and the vector as
  the function left it. Positions (\<open>Iterator\<close>, \<open>ConstIterator\<close>) are offsets from
  \<open>begin()\<close>, so \<open>begin()\<close> is 0 and \<open>end()\<close> is \<open>size_m\<close>.
\<close>

type_synonym ('a, 'r) result = "(error \<times> 'a SimpleVector) + ('r \<times> 'a SimpleVector)"

definition GetSize :: "'a SimpleVector \<Rightarrow> nat" where
  "GetSize v = size_m v"

definition GetCapacity :: "'a SimpleVector \<Rightarrow> nat" where
  "GetCapacity v = capacity_m v"

definition IsEmpty :: "'a SimpleVector \<Rightarrow> bool" where
  "IsEmpty v = (size_m v = 0)"

definition SimpleVector_default :: "'a SimpleVector" where
  "SimpleVector_default = \<lparr>data_m = [], size_m = 0, capacity_m = 0\<rparr>"

definition Reserve :: "'a elem \<Rightarrow> nat \<Rightarrow> 'a SimpleVector \<Rightarrow> ('a, unit) result" where
  "Reserve E new_capacity v =
     (if new_capacity \<le> capacity_m v then Inr ((), v)
      else case ArrayPtr_size E new_capacity of
        Inl e \<Rightarrow> Inl (e, v)
      | Inr copy \<Rightarrow>
          (case std_move E (data_m v) 0 (size_m v) copy 0 of
             Inl e \<Rightarrow> Inl (e, v)
           | Inr (copy', _) \<Rightarrow> Inr ((), v\<lparr>data_m := copy', capacity_m := new_capacity\<rparr>)))"

definition Resize :: "'a elem \<Rightarrow> nat \<Rightarrow> 'a SimpleVector \<Rightarrow> ('a, unit) result" where
  "Resize E new_size v =
     (if new_size < size_m v then Inr ((), v\<lparr>size_m := new_size\<rparr>)
      else case ArrayPtr_size E new_size of
        Inl e \<Rightarrow> Inl (e, v)
      | Inr copy \<Rightarrow>
          (case std_move E (data_m v) 0 (size_m v) copy 0 of
             Inl e \<Rightarrow> Inl (e, v)
           | Inr (copy', _) \<Rightarrow>
               Inr ((), v\<lparr>data_m := copy', size_m := new_size, capacity_m := new_size\<rparr>)))"

text \<open>
  The constructors: \<open>SimpleVector(size_t size)\<close>,
  \<open>SimpleVector(size_t size, const Type& value)\<close>,
  \<open>SimpleVector(std::initializer_list<Type> init)\<close>,
  \<open>SimpleVector(ReserveProxyObj other)\<close> and
  \<open>SimpleVector(const SimpleVector& other)\<close>. Each starts from the default member
  initialisers (null pointer, size 0, capacity 0). The elements of an
  \<open>initializer_list\<close> are const, so \<open>std::move\<close> over them calls the copy
  assignment.
\<close>

definition SimpleVector_size :: "'a elem \<Rightarrow> nat \<Rightarrow> ('a, unit) result" where
  "SimpleVector_size E n =
     (case Reserve E n SimpleVector_default of
        Inl x \<Rightarrow> Inl x
      | Inr (_, v) \<Rightarrow> Inr ((), v\<lparr>size_m := n, capacity_m := n\<rparr>))"

definition SimpleVector_size_value :: "'a elem \<Rightarrow> nat \<Rightarrow> 'a \<Rightarrow> ('a, unit) result" where
  "SimpleVector_size_value E n value =
     (case Reserve E n SimpleVector_default of
        Inl x \<Rightarrow> Inl x
      | Inr (_, v) \<Rightarrow>
          (let v' = v\<lparr>size_m := n, capacity_m := n\<rparr> in
           case std_generate E (data_m v') 0 n
                  (if copy_throws E value then Inl ElemThrow else Inr value) of
             Inl e \<Rightarrow> Inl (e, v')
           | Inr buf \<Rightarrow> Inr ((), v'\<lparr>data_m := buf\<rparr>)))"

definition SimpleVector_init :: "'a elem \<Rightarrow> 'a list \<Rightarrow> ('a, unit) result" where
  "SimpleVector_init E init =
     (case ArrayPtr_size E (length init) of
        Inl e \<Rightarrow> Inl (e, SimpleVector_default)
      | Inr buf \<Rightarrow>
          (let v = \<lparr>data_m = buf, size_m = length init, capacity_m = length init\<rparr> in
           case assign_forward (copy_throws E) init 0 (length init) buf 0 of
             Inl e \<Rightarrow> Inl (e, v)
           | Inr (buf', _) \<Rightarrow> Inr ((), v\<lparr>data_m := buf'\<rparr>)))"

definition SimpleVector_reserve :: "'a elem \<Rightarrow> nat \<Rightarrow> ('a, unit) result" where
  "SimpleVector_reserve E capacity_to_reserve =
     (case Reserve E capacity_to_reserve SimpleVector_default of
        Inl x \<Rightarrow> Inl x
      | Inr (_, v) \<Rightarrow> Inr ((), v\<lparr>size_m := 0\<rparr>))"

definition SimpleVector_copy :: "'a elem \<Rightarrow> 'a SimpleVector \<Rightarrow> ('a, unit) result" where
  "SimpleVector_copy E other =
     (case ArrayPtr_size E (GetCapacity other) of
        Inl e \<Rightarrow> Inl (e, SimpleVector_default)
      | Inr copy \<Rightarrow>
          (case std_copy E (data_m other) 0 (size_m other) copy 0 of
             Inl e \<Rightarrow> Inl (e, SimpleVector_default)
           | Inr (copy', _) \<Rightarrow>
               Inr ((), \<lparr>data_m = copy', size_m = GetSize other, capacity_m = GetCapacity other\<rparr>)))"

text \<open>
  \<open>PushBack\<close> and \<open>Insert\<close> take their argument by reference (\<open>const Type&\<close>,
  \<open>Type&&\<close>). The object referred to is either outside the storage of the vector,
  holding a value, or it is slot \<open>i\<close> of the array that the vector holds when the call
  starts, as in \<open>v.PushBack(v[i])\<close>. \<open>Reserve\<close> and \<open>Resize\<close>, when they swap in
  a new array, delete the old one on return; a reference into it dangles from then on,
  and the value is read through the reference only when the assignment runs.
\<close>

datatype 'a reference = Outside 'a | Slot nat | Freed

definition read_ref :: "'a list \<Rightarrow> 'a reference \<Rightarrow> error + 'a" where
  "read_ref buf r =
     (case r of
        Outside x \<Rightarrow> Inr x
      | Slot i \<Rightarrow> if i < length buf then Inr (buf ! i) else Inl OutOfBounds
      | Freed \<Rightarrow> Inl UseAfterFree)"

definition released :: "'a reference \<Rightarrow> 'a reference" where
  "released r = (case r of Outside x \<Rightarrow> Outside x | Slot i \<Rightarrow> Freed | Freed \<Rightarrow> Freed)"

definition after_Reserve :: "nat \<Rightarrow> 'a SimpleVector \<Rightarrow> 'a reference \<Rightarrow> 'a reference" where
  "after_Reserve new_capacity v r = (if new_capacity \<le> capacity_m v then r else released r)"

definition after_Resize :: "nat \<Rightarrow> 'a SimpleVector \<Rightarrow> 'a reference \<Rightarrow> 'a reference" where
  "after_Resize new_size v r = (if new_size < size_m v then r else released r)"

text \<open>
  \<open>data_[size_++] = item;\<close> The subscript, with its increment of \<open>size_m\<close>, is
  evaluated before the assignment runs.
\<close>

definition store_at_size :: "('a \<Rightarrow> bool) \<Rightarrow> 'a reference \<Rightarrow> 'a SimpleVector \<Rightarrow> ('a, unit) result" where
  "store_at_size thr item v =
     (let i = size_m v; v' = v\<lparr>size_m := size_m v + 1\<rparr> in
      if \<not> i < length (data_m v) then Inl (OutOfBounds, v')
      else case read_ref (data_m v) item of
        Inl e \<Rightarrow> Inl (e, v')
      | Inr x \<Rightarrow>
          if thr x then Inl (ElemThrow, v')
          else Inr ((), v'\<lparr>data_m := (data_m v)[i := x]\<rparr>))"

definition PushBack_copy :: "'a elem \<Rightarrow> 'a reference \<Rightarrow> 'a SimpleVector \<Rightarrow> ('a, unit) result" where
  "PushBack_copy E item v =
     (if size_m v < capacity_m v then store_at_size (copy_throws E) item v
      else case Reserve E (size_m v + 1) v of
        Inl x \<Rightarrow> Inl x
      | Inr (_, v') \<Rightarrow>
          store_at_size (copy_throws E) (after_Reserve (size_m v + 1) v item) v')"

definition PushBack_move :: "'a elem \<Rightarrow> 'a reference \<Rightarrow> 'a SimpleVector \<Rightarrow> ('a, unit) result" where
  "PushBack_move E item v =
     (if size_m v < capacity_m v then store_at_size (move_throws E) item v
      else case Reserve E (size_m v * 2 + 1) v of
        Inl x \<Rightarrow> Inl x
      | Inr (_, v') \<Rightarrow>
          store_at_size (move_throws E) (after_Reserve (size_m v * 2 + 1) v item) v')"

text \<open>
  \<open>SecureInsert\<close> (the source spells its third letter with a Cyrillic letter), copy
  overload. The shift and the assignment of \<open>value\<close> run on
  \<open>data_m\<close>; \<open>data_.swap(copy)\<close> then exchanges it with the buffer \<open>copy\<close> built
  by \<open>ArrayPtr<Type> copy(capacity_)\<close>, and \<open>copy\<close> is destroyed on return.
  \<open>swap_and_count\<close> is the pair of statements \<open>data_.swap(copy); ++size_;\<close> that
  ends the \<open>try\<close> block.
\<close>

definition swap_and_count :: "'a list \<Rightarrow> 'a SimpleVector \<Rightarrow> 'a SimpleVector" where
  "swap_and_count copy v = v\<lparr>data_m := copy, size_m := size_m v + 1\<rparr>"

definition SecureInsert_copy :: "'a elem \<Rightarrow> nat \<Rightarrow> 'a reference \<Rightarrow> 'a SimpleVector \<Rightarrow> ('a, nat) result" where
  "SecureInsert_copy E pos value v =
     (if \<not> pos \<le> size_m v then Inl (AssertFail, v)
      else case ArrayPtr_size E (capacity_m v) of
        Inl e \<Rightarrow> Inl (e, v)
      | Inr copy \<Rightarrow>
          (let insert_pos = pos in
           case std_copy_backward E insert_pos (size_m v) (size_m v + 1) (data_m v) of
             (Some e, buf) \<Rightarrow> Inl (e, v\<lparr>data_m := buf\<rparr>)
           | (None, buf) \<Rightarrow>
               if \<not> insert_pos < length buf then Inl (OutOfBounds, v\<lparr>data_m := buf\<rparr>)
               else case read_ref buf value of
                 Inl e \<Rightarrow> Inl (e, v\<lparr>data_m := buf\<rparr>)
               | Inr x \<Rightarrow>
                   if copy_throws E x then Inl (ElemThrow, v\<lparr>data_m := buf\<rparr>)
                   else Inr (insert_pos, swap_and_count copy v)))"

text \<open>\<open>SecureInsert\<close>, move overload: the shift and the assignment in place.\<close>

definition SecureInsert_move :: "'a elem \<Rightarrow> nat \<Rightarrow> 'a reference \<Rightarrow> 'a SimpleVector \<Rightarrow> ('a, nat) result" where
  "SecureInsert_move E pos value v =
     (if \<not> pos \<le> size_m v then Inl (AssertFail, v)
      else
        (let insert_pos = pos in
         case std_move_backward E insert_pos (size_m v) (size_m v + 1) (data_m v) of
           (Some e, buf) \<Rightarrow> Inl (e, v\<lparr>data_m := buf\<rparr>)
         | (None, buf) \<Rightarrow>
             if \<not> insert_pos < length buf then Inl (OutOfBounds, v\<lparr>data_m := buf\<rparr>)
             else case read_ref buf value of
               Inl e \<Rightarrow> Inl (e, v\<lparr>data_m := buf\<rparr>)
             | Inr x \<Rightarrow>
                 if move_throws E x then Inl (ElemThrow, v\<lparr>data_m := buf\<rparr>)
                 else Inr (insert_pos,
                           v\<lparr>data_m := buf[insert_pos := x], size_m := size_m v + 1\<rparr>)))"

text \<open>\<open>Insert\<close>; \<open>std::prev(end())\<close> after \<open>PushBack\<close> is the offset \<open>size_m - 1\<close>.\<close>

definition Insert_copy :: "'a elem \<Rightarrow> nat \<Rightarrow> 'a reference \<Rightarrow> 'a SimpleVector \<Rightarrow> ('a, nat) result" where
  "Insert_copy E pos value v =
     (if \<not> pos \<le> size_m v then Inl (AssertFail, v)
      else if pos = size_m v then
        (case PushBack_copy E value v of
           Inl x \<Rightarrow> Inl x
         | Inr (_, v') \<Rightarrow> Inr (size_m v' - 1, v'))
      else if size_m v < capacity_m v then SecureInsert_copy E pos value v
      else
        (let valid_pos = pos in
         case Resize E (size_m v + 1) v of
           Inl x \<Rightarrow> Inl x
         | Inr (_, v') \<Rightarrow>
             SecureInsert_copy E valid_pos (after_Resize (size_m v + 1) v value) v'))"

definition Insert_move :: "'a elem \<Rightarrow> nat \<Rightarrow> 'a reference \<Rightarrow> 'a SimpleVector \<Rightarrow> ('a, nat) result" where
  "Insert_move E pos value v =
     (if \<not> pos \<le> size_m v then Inl (AssertFail, v)
      else if pos = size_m v then
        (case PushBack_move E value v of
           Inl x \<Rightarrow> Inl x
         | Inr (_, v') \<Rightarrow> Inr (size_m v' - 1, v'))
      else if size_m v < capacity_m v then SecureInsert_move E pos value v
      else
        (let valid_pos = pos in
         case Reserve E (size_m v + 1) v of
           Inl x \<Rightarrow> Inl x
         | Inr (_, v') \<Rightarrow>
             SecureInsert_move E valid_pos (after_Reserve (size_m v + 1) v value) v'))"

definition PopBack :: "'a SimpleVector \<Rightarrow> ('a, unit) result" where
  "PopBack v =
     (if size_m v = 0 then Inl (AssertFail, v)
      else Inr ((), v\<lparr>size_m := size_m v - 1\<rparr>))"

definition Erase :: "'a elem \<Rightarrow> nat \<Rightarrow> 'a SimpleVector \<Rightarrow> ('a, nat) result" where
  "Erase E pos v =
     (if \<not> pos < size_m v then Inl (AssertFail, v)
      else case ArrayPtr_size E (size_m v) of
        Inl e \<Rightarrow> Inl (e, v)
      | Inr copy \<Rightarrow>
          (let erase_pos = pos in
           case std_move E (data_m v) 0 erase_pos copy 0 of
             Inl e \<Rightarrow> Inl (e, v)
           | Inr (copy1, end_) \<Rightarrow>
               (case std_move E (data_m v) (Suc erase_pos) (size_m v) copy1 end_ of
                  Inl e \<Rightarrow> Inl (e, v)
                | Inr (copy2, _) \<Rightarrow>
                    Inr (erase_pos, v\<lparr>data_m := copy2, size_m := size_m v - 1\<rparr>))))"

definition Clear :: "'a SimpleVector \<Rightarrow> ('a, unit) result" where
  "Clear v = Inr ((), v\<lparr>size_m := 0\<rparr>)"

text \<open>\<open>At\<close>, mutable and const overload: the same body.\<close>

definition At :: "nat \<Rightarrow> 'a SimpleVector \<Rightarrow> ('a, 'a) result" where
  "At index v =
     (if index \<ge> size_m v then Inl (OutOfRange, v)
      else if \<not> index < length (data_m v) then Inl (OutOfBounds, v)
      else Inr (data_m v ! index, v))"

definition At_const :: "nat \<Rightarrow> 'a SimpleVector \<Rightarrow> ('a, 'a) result" where
  "At_const index v =
     (if index \<ge> size_m v then Inl (OutOfRange, v)
      else if \<not> index < length (data_m v) then Inl (OutOfBounds, v)
      else Inr (data_m v ! index, v))"

subsection \<open>Operations on two vectors\<close>

text \<open>
  \<open>swap\<close>, the move constructor and the two assignments compare \<open>this\<close> with the
  address of the argument, so the vectors live in a store from object addresses to
  vectors. The move constructor runs on the object at \<open>this\<close> after its default
  member initialisers; the copy assignment builds the local \<open>copy\<close>, swaps with it
  and destroys it.
\<close>

type_synonym 'a vec_store = "nat \<Rightarrow> 'a SimpleVector"

definition SimpleVector_swap :: "nat \<Rightarrow> nat \<Rightarrow> 'a vec_store \<Rightarrow> 'a vec_store" where
  "SimpleVector_swap this other s =
     (if this \<noteq> other then
        s(this := \<lparr>data_m = data_m (s other), size_m = size_m (s other),
                    capacity_m = capacity_m (s other)\<rparr>,
          other := \<lparr>data_m = data_m (s this), size_m = size_m (s this),
                     capacity_m = capacity_m (s this)\<rparr>)
      else s)"

definition SimpleVector_move_assign :: "nat \<Rightarrow> nat \<Rightarrow> 'a vec_store \<Rightarrow> 'a vec_store" where
  "SimpleVector_move_assign this rhs s =
     (if this \<noteq> rhs then SimpleVector_swap this rhs s else s)"

definition SimpleVector_move_ctor :: "nat \<Rightarrow> nat \<Rightarrow> 'a vec_store \<Rightarrow> 'a vec_store" where
  "SimpleVector_move_ctor this other s =
     SimpleVector_move_assign this other (s(this := SimpleVector_default))"

definition SimpleVector_copy_assign :: "'a elem \<Rightarrow> nat \<Rightarrow> nat \<Rightarrow> 'a vec_store \<Rightarrow> error + 'a vec_store" where
  "SimpleVector_copy_assign E this rhs s =
     (if this \<noteq> rhs then
        (case SimpleVector_copy E (s rhs) of
           Inl (e, _) \<Rightarrow> Inl e
         | Inr (_, copy) \<Rightarrow> Inr (s(this := copy)))
      else Inr s)"

subsection \<open>The data model\<close>

text \<open>
  The data model of the vector: the buffer holds \<open>capacity_m\<close> slots, of which the
  first \<open>size_m\<close> are the elements.
\<close>

definition wf_vec :: "'a SimpleVector \<Rightarrow> bool" where
  "wf_vec v = (size_m v \<le> capacity_m v \<and> length (data_m v) = capacity_m v)"

text \<open>
  Less than \<open>wf_vec\<close>: the buffer has at least \<open>size_\<close> slots, so every element is in
  the buffer; and what \<open>PushBack\<close> needs beyond that: where \<open>size_ < capacity_\<close>,
  the slot at \<open>size_\<close> is in the buffer. A vector with \<open>wf_vec\<close> has both.
\<close>

definition elems_in_buffer :: "'a SimpleVector \<Rightarrow> bool" where
  "elems_in_buffer v = (size_m v \<le> length (data_m v))"

definition spare_in_buffer :: "'a SimpleVector \<Rightarrow> bool" where
  "spare_in_buffer v = (size_m v < capacity_m v \<longrightarrow> size_m v < length (data_m v))"

definition elems :: "'a SimpleVector \<Rightarrow> 'a list" where
  "elems v = take (size_m v) (data_m v)"

definition nothrow :: "'a elem \<Rightarrow> bool" where
  "nothrow E = (\<forall>x. \<not> copy_throws E x \<and> \<not> move_throws E x)"

text \<open>
  \<open>Type = int\<close>: \<open>int()\<close> is 0, nothing throws, and \<open>new int[n]\<close> leaves the
  slots uninitialised: slot \<open>i\<close> holds \<open>- 1 - i\<close> here, a value that is neither
  \<open>int()\<close> nor an element of any vector below.
\<close>

definition int_elem :: "int elem" where
  "int_elem = \<lparr>dflt = 0, fresh = (\<lambda>i. - 1 - int i), copy_throws = (\<lambda>x. False),
                move_throws = (\<lambda>x. False)\<rparr>"

subsection \<open>Concrete inputs\<close>

text \<open>
  The vector \<open>{1, 2, 3}\<close> of \<open>int\<close>; an element type whose copy throws for the
  value 13 and whose move never throws; a store with an \<open>ArrayPtr\<close> that holds an
  allocation at object address 1 and empty ones elsewhere; a store with the vector
  \<open>{7}\<close> at object address 0 and \<open>{1, 2}\<close> at 1.
\<close>

definition v123 :: "int SimpleVector" where
  "v123 = \<lparr>data_m = [1, 2, 3], size_m = 3, capacity_m = 3\<rparr>"

definition copy13_elem :: "int elem" where
  "copy13_elem = \<lparr>dflt = 0, fresh = (\<lambda>i. - 1 - int i), copy_throws = (\<lambda>x. x = 13),
                  move_throws = (\<lambda>x. False)\<rparr>"

definition ptr_store_ex :: ptr_store where
  "ptr_store_ex = (\<lambda>a. ArrayPtr_default)(1 := ArrayPtr_raw (Some 4096))"

definition vec_store_ex :: "int vec_store" where
  "vec_store_ex = (\<lambda>a. SimpleVector_default)
     (0 := \<lparr>data_m = [7], size_m = 1, capacity_m = 1\<rparr>,
      1 := \<lparr>data_m = [1, 2], size_m = 2, capacity_m = 2\<rparr>)"

lemmas run_defs = SimpleVector_init_def ArrayPtr_size_def std_generate.simps assign_forward.simps
  assign_backward.simps int_elem_def copy13_elem_def Reserve_def Resize_def std_move_def
  std_copy_def std_copy_backward_def std_move_backward_def Insert_copy_def Insert_move_def
  SecureInsert_copy_def SecureInsert_move_def swap_and_count_def SimpleVector_default_def
  PushBack_copy_def
  PushBack_move_def store_at_size_def read_ref_def released_def after_Reserve_def
  after_Resize_def Erase_def SimpleVector_reserve_def Let_def v123_def eval_nat_numeral

section \<open>The loops when nothing throws\<close>

lemma std_generate_ok:
  "\<not> move_throws E x \<Longrightarrow> first \<le> lst \<Longrightarrow> lst \<le> length buf \<Longrightarrow>
   std_generate E buf first lst (Inr x) =
     Inr (take first buf @ replicate (lst - first) x @ drop lst buf)"
proof (induction E buf first lst "Inr x :: error + 'a" rule: std_generate.induct)
  case (1 E buf first lst)
  show ?case
  proof (cases "first = lst")
    case True
    then show ?thesis by (simp add: std_generate.simps)
  next
    case False
    with "1.prems" have lt: "first < lst" "first < length buf" by auto
    have "std_generate E (buf[first := x]) (Suc first) lst (Inr x) =
          Inr (take (Suc first) (buf[first := x]) @ replicate (lst - Suc first) x
                 @ drop lst (buf[first := x]))"
      by (rule "1.hyps") (use False lt "1.prems" in auto)
    moreover have "take (Suc first) (buf[first := x]) = take first buf @ [x]"
      using lt by (simp add: take_Suc_conv_app_nth)
    moreover have "drop lst (buf[first := x]) = drop lst buf"
      using lt by simp
    moreover have "replicate (lst - first) x = x # replicate (lst - Suc first) x"
    proof -
      have "lst - first = Suc (lst - Suc first)" using lt by arith
      then show ?thesis by simp
    qed
    ultimately show ?thesis
      using False lt "1.prems" by (subst std_generate.simps) simp
  qed
qed

lemma ArrayPtr_size_ok:
  "\<not> move_throws E (dflt E) \<Longrightarrow> ArrayPtr_size E n = Inr (replicate n (dflt E))"
  using std_generate_ok [of E "dflt E" 0 n "map (fresh E) [0..<n]"]
  by (simp add: ArrayPtr_size_def)

lemma assign_forward_ok:
  "\<forall>x. \<not> thr x \<Longrightarrow> first \<le> lst \<Longrightarrow> lst \<le> length src \<Longrightarrow> d + (lst - first) \<le> length dst \<Longrightarrow>
   assign_forward thr src first lst dst d =
     Inr (take d dst @ take (lst - first) (drop first src) @ drop (d + (lst - first)) dst,
          d + (lst - first))"
proof (induction thr src first lst dst d rule: assign_forward.induct)
  case (1 thr src first lst dst d)
  show ?case
  proof (cases "first = lst")
    case True
    then show ?thesis by (simp add: assign_forward.simps)
  next
    case False
    with "1.prems" have lt: "first < lst" "first < length src" "d < length dst" by auto
    have nt: "\<not> thr (src ! first)" using "1.prems"(1) by simp
    let ?dst = "dst[d := src ! first]"
    have ar: "Suc d + (lst - Suc first) = d + (lst - first)" using lt by arith
    have "assign_forward thr src (Suc first) lst ?dst (Suc d) =
          Inr (take (Suc d) ?dst @ take (lst - Suc first) (drop (Suc first) src)
                 @ drop (Suc d + (lst - Suc first)) ?dst, Suc d + (lst - Suc first))"
      by (rule "1.IH") (use False lt nt "1.prems" in auto)
    moreover have "take (Suc d) ?dst = take d dst @ [src ! first]"
      using lt by (simp add: take_Suc_conv_app_nth)
    moreover have "drop (Suc d + (lst - Suc first)) ?dst = drop (d + (lst - first)) dst"
      unfolding ar using lt by simp
    moreover have "take (lst - first) (drop first src) =
                   src ! first # take (lst - Suc first) (drop (Suc first) src)"
    proof -
      have "lst - first = Suc (lst - Suc first)" using lt by arith
      moreover have "drop first src = src ! first # drop (Suc first) src"
        using lt by (simp add: Cons_nth_drop_Suc)
      ultimately show ?thesis by simp
    qed
    ultimately show ?thesis
      using False lt nt "1.prems" ar by (subst assign_forward.simps) simp
  qed
qed

lemma assign_backward_ok:
  "\<forall>x. \<not> thr x \<Longrightarrow> first \<le> lst \<Longrightarrow> lst < length buf \<Longrightarrow>
   assign_backward thr first lst (Suc lst) buf =
     (None, take (Suc first) buf @ take (lst - first) (drop first buf) @ drop (Suc lst) buf)"
proof (induction "lst - first" arbitrary: lst buf)
  case 0
  then show ?case by (simp add: assign_backward.simps)
next
  case (Suc k)
  then have lt: "first < lst" by auto
  then obtain l where l: "lst = Suc l" by (cases lst) auto
  let ?buf = "buf[lst := buf ! l]"
  have nt: "\<not> thr (buf ! l)" using Suc.prems(1) by simp
  have IH: "assign_backward thr first l (Suc l) ?buf =
     (None, take (Suc first) ?buf @ take (l - first) (drop first ?buf) @ drop (Suc l) ?buf)"
    using Suc.hyps(1)[of l ?buf] Suc.hyps(2) Suc.prems l by simp
  have a: "take (Suc first) ?buf = take (Suc first) buf" using lt by simp
  have b: "take (l - first) (drop first ?buf) = take (l - first) (drop first buf)"
    using lt l by (simp add: drop_update_swap)
  have c: "drop (Suc l) ?buf = buf ! l # drop (Suc lst) buf"
    using Suc.prems l by (metis Cons_nth_drop_Suc length_list_update nth_list_update_eq drop_update_cancel lessI)
  have d: "take (lst - first) (drop first buf) = take (l - first) (drop first buf) @ [buf ! l]"
    using lt l Suc.prems by (simp add: Suc_diff_le take_Suc_conv_app_nth)
  show ?case
    using lt l nt Suc.prems IH a b c d by (subst assign_backward.simps) simp
qed

section \<open>The operations when nothing throws\<close>

lemma nothrow_move: "nothrow E \<Longrightarrow> \<not> move_throws E x"
  by (simp add: nothrow_def)

lemma nothrow_copy: "nothrow E \<Longrightarrow> \<not> copy_throws E x"
  by (simp add: nothrow_def)

lemma std_move_into_fresh:
  assumes "nothrow E" "k \<le> length src" "k \<le> n"
  shows "std_move E src 0 k (replicate n (dflt E)) 0 =
           Inr (take k src @ replicate (n - k) (dflt E), k)"
proof -
  have "\<forall>x. \<not> move_throws E x" using assms(1) by (simp add: nothrow_def)
  then have "assign_forward (move_throws E) src 0 k (replicate n (dflt E)) 0 =
               Inr (take 0 (replicate n (dflt E)) @ take (k - 0) (drop 0 src)
                      @ drop (0 + (k - 0)) (replicate n (dflt E)), 0 + (k - 0))"
    using assms(2,3) by (intro assign_forward_ok) auto
  then show ?thesis by (simp add: std_move_def)
qed

lemma Reserve_grow:
  assumes "nothrow E" "size_m v \<le> length (data_m v)" "capacity_m v < n" "size_m v \<le> n"
  shows "Reserve E n v =
           Inr ((), v\<lparr>data_m := take (size_m v) (data_m v) @ replicate (n - size_m v) (dflt E),
                      capacity_m := n\<rparr>)"
  using assms
  by (simp add: Reserve_def ArrayPtr_size_ok nothrow_move std_move_into_fresh)

lemma Resize_grow:
  assumes "nothrow E" "size_m v \<le> length (data_m v)" "size_m v \<le> n"
  shows "Resize E n v =
           Inr ((), v\<lparr>data_m := take (size_m v) (data_m v) @ replicate (n - size_m v) (dflt E),
                      size_m := n, capacity_m := n\<rparr>)"
  using assms
  by (simp add: Resize_def ArrayPtr_size_ok nothrow_move std_move_into_fresh)

lemma store_at_size_ok:
  assumes "\<not> thr item" "size_m v < length (data_m v)"
  shows "store_at_size thr (Outside item) v =
           Inr ((), v\<lparr>size_m := size_m v + 1, data_m := (data_m v)[size_m v := item]\<rparr>)"
  using assms by (simp add: store_at_size_def read_ref_def Let_def)

lemma take_update_last: "k < length xs \<Longrightarrow> take (Suc k) (xs[k := x]) = take k xs @ [x]"
  by (simp add: take_Suc_conv_app_nth)

lemma PushBack_copy_result:
  assumes "nothrow E" "elems_in_buffer v" "spare_in_buffer v"
  shows "PushBack_copy E (Outside item) v =
           Inr ((), if size_m v < capacity_m v
                    then v\<lparr>size_m := size_m v + 1, data_m := (data_m v)[size_m v := item]\<rparr>
                    else \<lparr>data_m = elems v @ [item], size_m = size_m v + 1,
                           capacity_m = size_m v + 1\<rparr>)"
proof (cases "size_m v < capacity_m v")
  case True
  then show ?thesis
    using assms by (simp add: PushBack_copy_def store_at_size_ok nothrow_copy spare_in_buffer_def)
next
  case False
  have len: "size_m v \<le> length (data_m v)" using assms(2) by (simp add: elems_in_buffer_def)
  define v1 where "v1 = v\<lparr>data_m := take (size_m v) (data_m v)
                            @ replicate (size_m v + 1 - size_m v) (dflt E),
                          capacity_m := size_m v + 1\<rparr>"
  have r: "Reserve E (size_m v + 1) v = Inr ((), v1)"
    unfolding v1_def using assms(1) len False by (intro Reserve_grow) auto
  have v1: "data_m v1 = elems v @ [dflt E]" "size_m v1 = size_m v"
    by (simp_all add: v1_def elems_def)
  have l: "length (elems v) = size_m v" using len by (simp add: elems_def)
  have "store_at_size (copy_throws E) (Outside item) v1 =
          Inr ((), v1\<lparr>size_m := size_m v1 + 1, data_m := (data_m v1)[size_m v1 := item]\<rparr>)"
    using assms(1) v1 l by (intro store_at_size_ok) (simp_all add: nothrow_copy)
  moreover have "(elems v @ [dflt E])[size_m v := item] = elems v @ [item]"
    using l by (metis list_update_length)
  then have "v1\<lparr>size_m := size_m v1 + 1, data_m := (data_m v1)[size_m v1 := item]\<rparr> =
          \<lparr>data_m = elems v @ [item], size_m = size_m v + 1, capacity_m = size_m v + 1\<rparr>"
    using v1 by (simp add: v1_def)
  ultimately show ?thesis
    using False r by (simp add: PushBack_copy_def after_Reserve_def released_def)
qed

lemma PushBack_move_result:
  assumes "nothrow E" "elems_in_buffer v" "spare_in_buffer v"
  shows "PushBack_move E (Outside item) v =
           Inr ((), if size_m v < capacity_m v
                    then v\<lparr>size_m := size_m v + 1, data_m := (data_m v)[size_m v := item]\<rparr>
                    else \<lparr>data_m = elems v @ [item] @ replicate (size_m v) (dflt E),
                           size_m = size_m v + 1, capacity_m = size_m v * 2 + 1\<rparr>)"
proof (cases "size_m v < capacity_m v")
  case True
  then show ?thesis
    using assms by (simp add: PushBack_move_def store_at_size_ok nothrow_move spare_in_buffer_def)
next
  case False
  have len: "size_m v \<le> length (data_m v)" using assms(2) by (simp add: elems_in_buffer_def)
  define v1 where "v1 = v\<lparr>data_m := take (size_m v) (data_m v)
                            @ replicate (size_m v * 2 + 1 - size_m v) (dflt E),
                          capacity_m := size_m v * 2 + 1\<rparr>"
  have r: "Reserve E (size_m v * 2 + 1) v = Inr ((), v1)"
    unfolding v1_def using assms(1) len False by (intro Reserve_grow) auto
  have "size_m v * 2 + 1 - size_m v = Suc (size_m v)" by simp
  then have v1: "data_m v1 = elems v @ dflt E # replicate (size_m v) (dflt E)"
           "size_m v1 = size_m v"
    by (simp_all add: v1_def elems_def)
  have l: "length (elems v) = size_m v" using len by (simp add: elems_def)
  have "store_at_size (move_throws E) (Outside item) v1 =
          Inr ((), v1\<lparr>size_m := size_m v1 + 1, data_m := (data_m v1)[size_m v1 := item]\<rparr>)"
    using assms(1) v1 l by (intro store_at_size_ok) (simp_all add: nothrow_move)
  moreover have "(elems v @ dflt E # replicate (size_m v) (dflt E))[size_m v := item] =
                   elems v @ item # replicate (size_m v) (dflt E)"
    using l by (metis list_update_length)
  then have "v1\<lparr>size_m := size_m v1 + 1, data_m := (data_m v1)[size_m v1 := item]\<rparr> =
          \<lparr>data_m = elems v @ [item] @ replicate (size_m v) (dflt E),
           size_m = size_m v + 1, capacity_m = size_m v * 2 + 1\<rparr>"
    using v1 by (simp add: v1_def)
  ultimately show ?thesis
    using False r by (simp add: PushBack_move_def after_Reserve_def released_def)
qed

lemma Erase_result:
  assumes "nothrow E" "elems_in_buffer v" "pos < size_m v"
  shows "Erase E pos v =
           Inr (pos, v\<lparr>data_m := take pos (data_m v)
                                 @ take (size_m v - Suc pos) (drop (Suc pos) (data_m v))
                                 @ [dflt E],
                       size_m := size_m v - 1\<rparr>)"
proof -
  have nt: "\<forall>x. \<not> move_throws E x" using assms(1) by (simp add: nothrow_def)
  have len: "size_m v \<le> length (data_m v)" using assms(2) by (simp add: elems_in_buffer_def)
  let ?n = "size_m v"
  let ?copy = "replicate ?n (dflt E)"
  let ?copy1 = "take pos (data_m v) @ replicate (?n - pos) (dflt E)"
  let ?copy2 = "take pos (data_m v) @ take (?n - Suc pos) (drop (Suc pos) (data_m v)) @ [dflt E]"
  have a: "ArrayPtr_size E ?n = Inr ?copy"
    using assms(1) by (simp add: ArrayPtr_size_ok nothrow_move)
  have b: "std_move E (data_m v) 0 pos ?copy 0 = Inr (?copy1, pos)"
    using std_move_into_fresh [OF assms(1), of pos "data_m v" ?n] assms(3) len by simp
  have "assign_forward (move_throws E) (data_m v) (Suc pos) ?n ?copy1 pos =
          Inr (take pos ?copy1 @ take (?n - Suc pos) (drop (Suc pos) (data_m v))
                 @ drop (pos + (?n - Suc pos)) ?copy1, pos + (?n - Suc pos))"
    using nt assms(3) len by (intro assign_forward_ok) auto
  moreover have "take pos ?copy1 = take pos (data_m v)"
    using assms(3) len by simp
  moreover have "drop (pos + (?n - Suc pos)) ?copy1 = [dflt E]"
  proof -
    have "pos + (?n - Suc pos) = ?n - 1" using assms(3) by arith
    moreover have "length (take pos (data_m v)) = pos" using assms(3) len by simp
    moreover have "?n - pos - (?n - 1 - pos) = 1" using assms(3) by arith
    ultimately show ?thesis by simp
  qed
  ultimately have c: "std_move E (data_m v) (Suc pos) ?n ?copy1 pos = Inr (?copy2, pos + (?n - Suc pos))"
    by (simp add: std_move_def)
  show ?thesis
    using assms(3) a b c by (simp add: Erase_def)
qed

section \<open>Checked access\<close>

text \<open>
  C10. \<open>At(index)\<close>, in both overloads, fails with the out-of-range error exactly when
  \<open>index \<ge> GetSize()\<close>, and then the vector is as before; for a smaller index of a
  vector whose elements are in its buffer it returns the element at that index, and the
  vector is as before.
\<close>

theorem At_checked:
  "(\<exists>v'. At index v = Inl (OutOfRange, v')) = (index \<ge> GetSize v) \<and>
   (\<exists>v'. At_const index v = Inl (OutOfRange, v')) = (index \<ge> GetSize v) \<and>
   (index \<ge> GetSize v \<longrightarrow>
      At index v = Inl (OutOfRange, v) \<and> At_const index v = Inl (OutOfRange, v)) \<and>
   (elems_in_buffer v \<and> index < GetSize v \<longrightarrow>
      At index v = Inr (elems v ! index, v) \<and> At_const index v = Inr (elems v ! index, v))"
  by (auto simp: At_def At_const_def GetSize_def elems_in_buffer_def elems_def)

theorem At_checked_witness:
  "elems_in_buffer \<lparr>data_m = [10, 20, 30 :: int], size_m = 2, capacity_m = 3\<rparr> \<and>
   1 < GetSize \<lparr>data_m = [10, 20, 30 :: int], size_m = 2, capacity_m = 3\<rparr> \<and>
   At 1 \<lparr>data_m = [10, 20, 30 :: int], size_m = 2, capacity_m = 3\<rparr> =
     Inr (20, \<lparr>data_m = [10, 20, 30], size_m = 2, capacity_m = 3\<rparr>) \<and>
   2 \<ge> GetSize \<lparr>data_m = [10, 20, 30 :: int], size_m = 2, capacity_m = 3\<rparr> \<and>
   At_const 2 \<lparr>data_m = [10, 20, 30 :: int], size_m = 2, capacity_m = 3\<rparr> =
     Inl (OutOfRange, \<lparr>data_m = [10, 20, 30], size_m = 2, capacity_m = 3\<rparr>)"
  using At_checked [of 1 "\<lparr>data_m = [10, 20, 30 :: int], size_m = 2, capacity_m = 3\<rparr>"]
        At_checked [of 2 "\<lparr>data_m = [10, 20, 30 :: int], size_m = 2, capacity_m = 3\<rparr>"]
  by (simp add: elems_in_buffer_def GetSize_def elems_def)

section \<open>Appending\<close>

text \<open>
  What \<open>PushBack\<close> does where its store stays inside the buffer. On a vector whose
  elements are in its buffer and which, where \<open>size < capacity\<close>, has the slot at
  \<open>size\<close> in its buffer, with an element type that does not throw and an argument
  outside the vector, \<open>PushBack\<close> returns normally, the size grows by one and the
  elements are the old ones, in order, followed by the new value. With
  \<open>size < capacity\<close> the value is stored in place and the capacity stays; otherwise
  the capacity becomes \<open>size + 1\<close> for the copy overload and \<open>size * 2 + 1\<close> for
  the move overload, and the new buffer has that many slots.
\<close>

lemma PushBack_appends:
  assumes "nothrow E" "elems_in_buffer v" "spare_in_buffer v"
  shows "(\<exists>v'. PushBack_copy E (Outside item) v = Inr ((), v') \<and>
           GetSize v' = GetSize v + 1 \<and> elems v' = elems v @ [item] \<and>
           GetCapacity v' = (if GetSize v < GetCapacity v then GetCapacity v else GetSize v + 1) \<and>
           (GetSize v < GetCapacity v \<longrightarrow> data_m v' = (data_m v)[GetSize v := item]) \<and>
           (\<not> GetSize v < GetCapacity v \<longrightarrow> wf_vec v') \<and> elems_in_buffer v') \<and>
         (\<exists>v'. PushBack_move E (Outside item) v = Inr ((), v') \<and>
           GetSize v' = GetSize v + 1 \<and> elems v' = elems v @ [item] \<and>
           GetCapacity v' = (if GetSize v < GetCapacity v then GetCapacity v else GetSize v * 2 + 1) \<and>
           (GetSize v < GetCapacity v \<longrightarrow> data_m v' = (data_m v)[GetSize v := item]) \<and>
           (\<not> GetSize v < GetCapacity v \<longrightarrow> wf_vec v') \<and> elems_in_buffer v')"
proof -
  have len: "size_m v \<le> length (data_m v)"
    using assms(2) by (simp add: elems_in_buffer_def)
  have sp: "size_m v < capacity_m v \<Longrightarrow> size_m v < length (data_m v)"
    using assms(3) by (simp add: spare_in_buffer_def)
  have l: "length (elems v) = size_m v" using len by (simp add: elems_def)
  have "\<exists>v'. PushBack_copy E (Outside item) v = Inr ((), v') \<and>
           GetSize v' = GetSize v + 1 \<and> elems v' = elems v @ [item] \<and>
           GetCapacity v' = (if GetSize v < GetCapacity v then GetCapacity v else GetSize v + 1) \<and>
           (GetSize v < GetCapacity v \<longrightarrow> data_m v' = (data_m v)[GetSize v := item]) \<and>
           (\<not> GetSize v < GetCapacity v \<longrightarrow> wf_vec v') \<and> elems_in_buffer v'"
  proof (cases "size_m v < capacity_m v")
    case True
    then show ?thesis
      unfolding PushBack_copy_result [OF assms]
      using sp by (simp add: GetSize_def GetCapacity_def elems_def elems_in_buffer_def
                     take_update_last)
  next
    case False
    then show ?thesis
      unfolding PushBack_copy_result [OF assms]
      using l by (simp add: GetSize_def GetCapacity_def elems_in_buffer_def wf_vec_def)
        (simp add: elems_def)
  qed
  moreover have "\<exists>v'. PushBack_move E (Outside item) v = Inr ((), v') \<and>
           GetSize v' = GetSize v + 1 \<and> elems v' = elems v @ [item] \<and>
           GetCapacity v' = (if GetSize v < GetCapacity v then GetCapacity v else GetSize v * 2 + 1) \<and>
           (GetSize v < GetCapacity v \<longrightarrow> data_m v' = (data_m v)[GetSize v := item]) \<and>
           (\<not> GetSize v < GetCapacity v \<longrightarrow> wf_vec v') \<and> elems_in_buffer v'"
  proof (cases "size_m v < capacity_m v")
    case True
    then show ?thesis
      unfolding PushBack_move_result [OF assms]
      using sp by (simp add: GetSize_def GetCapacity_def elems_def elems_in_buffer_def
                     take_update_last)
  next
    case False
    then show ?thesis
      unfolding PushBack_move_result [OF assms]
      using l by (simp add: GetSize_def GetCapacity_def elems_in_buffer_def wf_vec_def)
        (simp add: elems_def)
  qed
  ultimately show ?thesis by (rule conjI)
qed

lemma PushBack_appends_example:
  "nothrow int_elem \<and> elems_in_buffer v123 \<and> spare_in_buffer v123 \<and>
   elems_in_buffer \<lparr>data_m = [1, 2, 0 :: int], size_m = 2, capacity_m = 3\<rparr> \<and>
   spare_in_buffer \<lparr>data_m = [1, 2, 0 :: int], size_m = 2, capacity_m = 3\<rparr> \<and>
   (\<exists>v'. PushBack_copy int_elem (Outside 4) v123 = Inr ((), v') \<and> elems v' = [1, 2, 3, 4] \<and>
         GetSize v' = 4 \<and> GetCapacity v' = 4) \<and>
   (\<exists>v'. PushBack_move int_elem (Outside 4) v123 = Inr ((), v') \<and> elems v' = [1, 2, 3, 4] \<and>
         GetSize v' = 4 \<and> GetCapacity v' = 7) \<and>
   (\<exists>v'. PushBack_copy int_elem (Outside 4) \<lparr>data_m = [1, 2, 0], size_m = 2, capacity_m = 3\<rparr>
           = Inr ((), v') \<and> data_m v' = [1, 2, 4] \<and> GetSize v' = 3 \<and> GetCapacity v' = 3)"
proof -
  have n: "nothrow int_elem" by (simp add: nothrow_def int_elem_def)
  have w1: "elems_in_buffer v123" "spare_in_buffer v123"
    by (simp_all add: elems_in_buffer_def spare_in_buffer_def v123_def)
  have w2: "elems_in_buffer \<lparr>data_m = [1, 2, 0 :: int], size_m = 2, capacity_m = 3\<rparr>"
           "spare_in_buffer \<lparr>data_m = [1, 2, 0 :: int], size_m = 2, capacity_m = 3\<rparr>"
    by (simp_all add: elems_in_buffer_def spare_in_buffer_def)
  show ?thesis
    using n w1 w2 PushBack_appends [OF n w1, of 4] PushBack_appends [OF n w2, of 4]
    by (auto simp: GetSize_def GetCapacity_def elems_def v123_def)
qed

text \<open>
  C7. A vector constructed with \<open>Reserve(3)\<close>, after \<open>PushBack(1)\<close>,
  \<open>Erase(begin())\<close> and \<open>PushBack(5)\<close>, has size 1, capacity 3 and a buffer of one
  slot, since \<open>Erase\<close> left \<open>capacity_\<close> as it was. The next \<open>PushBack\<close>, in
  either overload, finds \<open>size < capacity\<close> and stores at index 1, outside the
  buffer. Apart from that, on the full vector \<open>{1, 2, 3}\<close> the call
  \<open>v.PushBack(v[0])\<close>, in either overload, reads its argument after \<open>Reserve\<close>
  has deleted the array the argument refers to.
\<close>

theorem PushBack_past_the_buffer:
  "SimpleVector_reserve int_elem 3 =
     Inr ((), \<lparr>data_m = [0, 0, 0], size_m = 0, capacity_m = 3\<rparr>) \<and>
   PushBack_copy int_elem (Outside 1) \<lparr>data_m = [0, 0, 0], size_m = 0, capacity_m = 3\<rparr> =
     Inr ((), \<lparr>data_m = [1, 0, 0], size_m = 1, capacity_m = 3\<rparr>) \<and>
   Erase int_elem 0 \<lparr>data_m = [1, 0, 0], size_m = 1, capacity_m = 3\<rparr> =
     Inr (0, \<lparr>data_m = [0], size_m = 0, capacity_m = 3\<rparr>) \<and>
   PushBack_copy int_elem (Outside 5) \<lparr>data_m = [0], size_m = 0, capacity_m = 3\<rparr> =
     Inr ((), \<lparr>data_m = [5], size_m = 1, capacity_m = 3\<rparr>) \<and>
   GetSize \<lparr>data_m = [5 :: int], size_m = 1, capacity_m = 3\<rparr>
     < GetCapacity \<lparr>data_m = [5 :: int], size_m = 1, capacity_m = 3\<rparr> \<and>
   PushBack_copy int_elem (Outside 6) \<lparr>data_m = [5], size_m = 1, capacity_m = 3\<rparr> =
     Inl (OutOfBounds, \<lparr>data_m = [5], size_m = 2, capacity_m = 3\<rparr>) \<and>
   PushBack_move int_elem (Outside 6) \<lparr>data_m = [5], size_m = 1, capacity_m = 3\<rparr> =
     Inl (OutOfBounds, \<lparr>data_m = [5], size_m = 2, capacity_m = 3\<rparr>) \<and>
   PushBack_copy int_elem (Slot 0) v123 =
     Inl (UseAfterFree, \<lparr>data_m = [1, 2, 3, 0], size_m = 4, capacity_m = 4\<rparr>) \<and>
   PushBack_move int_elem (Slot 0) v123 =
     Inl (UseAfterFree, \<lparr>data_m = [1, 2, 3, 0, 0, 0, 0], size_m = 4, capacity_m = 7\<rparr>)"
proof (intro conjI)
  show "SimpleVector_reserve int_elem 3 =
          Inr ((), \<lparr>data_m = [0, 0, 0], size_m = 0, capacity_m = 3\<rparr>)"
    by (simp add: run_defs)
  show "PushBack_copy int_elem (Outside 1) \<lparr>data_m = [0, 0, 0], size_m = 0, capacity_m = 3\<rparr> =
          Inr ((), \<lparr>data_m = [1, 0, 0], size_m = 1, capacity_m = 3\<rparr>)"
    by (simp add: run_defs)
  show "Erase int_elem 0 \<lparr>data_m = [1, 0, 0], size_m = 1, capacity_m = 3\<rparr> =
          Inr (0, \<lparr>data_m = [0], size_m = 0, capacity_m = 3\<rparr>)"
    by (simp add: run_defs)
  show "PushBack_copy int_elem (Outside 5) \<lparr>data_m = [0], size_m = 0, capacity_m = 3\<rparr> =
          Inr ((), \<lparr>data_m = [5], size_m = 1, capacity_m = 3\<rparr>)"
    by (simp add: run_defs)
  show "GetSize \<lparr>data_m = [5 :: int], size_m = 1, capacity_m = 3\<rparr>
          < GetCapacity \<lparr>data_m = [5 :: int], size_m = 1, capacity_m = 3\<rparr>"
    by (simp add: GetSize_def GetCapacity_def)
  show "PushBack_copy int_elem (Outside 6) \<lparr>data_m = [5], size_m = 1, capacity_m = 3\<rparr> =
          Inl (OutOfBounds, \<lparr>data_m = [5], size_m = 2, capacity_m = 3\<rparr>)"
    by (simp add: run_defs)
  show "PushBack_move int_elem (Outside 6) \<lparr>data_m = [5], size_m = 1, capacity_m = 3\<rparr> =
          Inl (OutOfBounds, \<lparr>data_m = [5], size_m = 2, capacity_m = 3\<rparr>)"
    by (simp add: run_defs)
  show "PushBack_copy int_elem (Slot 0) v123 =
          Inl (UseAfterFree, \<lparr>data_m = [1, 2, 3, 0], size_m = 4, capacity_m = 4\<rparr>)"
    by (simp add: run_defs)
  show "PushBack_move int_elem (Slot 0) v123 =
          Inl (UseAfterFree, \<lparr>data_m = [1, 2, 3, 0, 0, 0, 0], size_m = 4, capacity_m = 7\<rparr>)"
    by (simp add: run_defs)
qed

section \<open>Resizing\<close>

text \<open>
  C8. On a vector whose elements are in its buffer, with an element type that does
  not throw, \<open>Resize(new_size)\<close> with \<open>new_size < size\<close> sets the size
  to \<open>new_size\<close> and leaves the capacity and the buffer as they are, so the elements
  are the first \<open>new_size\<close> old ones; with \<open>new_size \<ge> size\<close> the elements are the
  old ones followed by \<open>Type()\<close> at the indices from \<open>size\<close> to \<open>new_size\<close>, and
  size and capacity are both \<open>new_size\<close>.
\<close>

theorem Resize_result:
  assumes "nothrow E" "elems_in_buffer v"
  shows "(new_size < GetSize v \<longrightarrow>
            (\<exists>v'. Resize E new_size v = Inr ((), v') \<and> GetSize v' = new_size \<and>
                  GetCapacity v' = GetCapacity v \<and> data_m v' = data_m v \<and>
                  elems v' = take new_size (elems v))) \<and>
         (GetSize v \<le> new_size \<longrightarrow>
            (\<exists>v'. Resize E new_size v = Inr ((), v') \<and> GetSize v' = new_size \<and>
                  GetCapacity v' = new_size \<and>
                  elems v' = elems v @ replicate (new_size - GetSize v) (dflt E) \<and> wf_vec v'))"
proof (intro conjI impI)
  assume "new_size < GetSize v"
  then show "\<exists>v'. Resize E new_size v = Inr ((), v') \<and> GetSize v' = new_size \<and>
                  GetCapacity v' = GetCapacity v \<and> data_m v' = data_m v \<and>
                  elems v' = take new_size (elems v)"
    by (simp add: Resize_def GetSize_def GetCapacity_def elems_def min_def)
next
  assume "GetSize v \<le> new_size"
  then have le: "size_m v \<le> new_size" by (simp add: GetSize_def)
  have len: "size_m v \<le> length (data_m v)"
    using assms(2) by (simp add: elems_in_buffer_def)
  show "\<exists>v'. Resize E new_size v = Inr ((), v') \<and> GetSize v' = new_size \<and>
                  GetCapacity v' = new_size \<and>
                  elems v' = elems v @ replicate (new_size - GetSize v) (dflt E) \<and> wf_vec v'"
    unfolding Resize_grow [OF assms(1) len le]
    using le len by (simp add: GetSize_def GetCapacity_def elems_def wf_vec_def)
qed

theorem Resize_result_witness:
  "nothrow int_elem \<and> elems_in_buffer v123 \<and> 2 < GetSize v123 \<and> GetSize v123 \<le> 5 \<and>
   (\<exists>v'. Resize int_elem 2 v123 = Inr ((), v') \<and> GetSize v' = 2 \<and> GetCapacity v' = 3 \<and>
         elems v' = [1, 2]) \<and>
   (\<exists>v'. Resize int_elem 5 v123 = Inr ((), v') \<and> GetSize v' = 5 \<and> GetCapacity v' = 5 \<and>
         elems v' = [1, 2, 3, 0, 0])"
proof -
  have n: "nothrow int_elem" by (simp add: nothrow_def int_elem_def)
  have w: "elems_in_buffer v123" by (simp add: elems_in_buffer_def v123_def)
  have r: "replicate (5 - 3) (dflt int_elem) = [0, 0]"
    by (simp add: int_elem_def eval_nat_numeral)
  show ?thesis
    using n w r Resize_result [OF n w, of 2] Resize_result [OF n w, of 5]
    by (auto simp: GetSize_def GetCapacity_def elems_def v123_def)
qed

section \<open>Erasing\<close>

text \<open>
  C9. On a vector whose elements are in its buffer, with an element type that does
  not throw, \<open>Erase(pos)\<close> with \<open>pos\<close> before \<open>end()\<close> returns
  normally; the size shrinks by one, the elements are the old ones without the one at
  \<open>pos\<close>, in order, and the position returned is \<open>pos\<close>: it refers to the element
  that followed the erased one, or is the new \<open>end()\<close> when the last element was
  erased.
\<close>

theorem Erase_removes:
  assumes "nothrow E" "elems_in_buffer v" "pos < GetSize v"
  shows "\<exists>v'. Erase E pos v = Inr (pos, v') \<and>
           GetSize v' + 1 = GetSize v \<and>
           elems v' = take pos (elems v) @ drop (Suc pos) (elems v) \<and>
           (Suc pos < GetSize v \<longrightarrow> elems v' ! pos = elems v ! Suc pos) \<and>
           (Suc pos = GetSize v \<longrightarrow> pos = GetSize v')"
proof -
  have p: "pos < size_m v" using assms(3) by (simp add: GetSize_def)
  have len: "size_m v \<le> length (data_m v)"
    using assms(2) by (simp add: elems_in_buffer_def)
  let ?d' = "take pos (data_m v) @ take (size_m v - Suc pos) (drop (Suc pos) (data_m v)) @ [dflt E]"
  have l1: "length (take pos (data_m v)) = pos" using p len by simp
  have l2: "length (take (size_m v - Suc pos) (drop (Suc pos) (data_m v))) = size_m v - Suc pos"
    using p len by simp
  have e: "take (size_m v - 1) ?d' =
             take pos (data_m v) @ take (size_m v - Suc pos) (drop (Suc pos) (data_m v))"
  proof -
    have "size_m v - 1 = pos + (size_m v - Suc pos)" using p by arith
    then show ?thesis using l1 l2 by simp
  qed
  have f: "take pos (take (size_m v) (data_m v)) = take pos (data_m v)"
    using p by (simp add: min_def)
  have g: "drop (Suc pos) (take (size_m v) (data_m v)) =
             take (size_m v - Suc pos) (drop (Suc pos) (data_m v))"
    by (simp add: drop_take)
  have h: "Suc pos < size_m v \<Longrightarrow>
             (take pos (data_m v) @ take (size_m v - Suc pos) (drop (Suc pos) (data_m v))) ! pos =
             take (size_m v) (data_m v) ! Suc pos"
    using l1 len by (simp add: nth_append)
  show ?thesis
    unfolding Erase_result [OF assms(1,2) p]
    using p e f g h by (auto simp: GetSize_def elems_def)
qed

theorem Erase_removes_witness:
  "nothrow int_elem \<and> elems_in_buffer v123 \<and> 1 < GetSize v123 \<and> Suc 1 < GetSize v123 \<and>
   2 < GetSize v123 \<and> Suc 2 = GetSize v123 \<and>
   (\<exists>v'. Erase int_elem 1 v123 = Inr (1, v') \<and> elems v' = [1, 3] \<and> elems v' ! 1 = 3 \<and>
         GetSize v' = 2) \<and>
   (\<exists>v'. Erase int_elem 2 v123 = Inr (2, v') \<and> elems v' = [1, 2] \<and> 2 = GetSize v')"
proof -
  have n: "nothrow int_elem" by (simp add: nothrow_def int_elem_def)
  have w: "elems_in_buffer v123" by (simp add: elems_in_buffer_def v123_def)
  have p1: "1 < GetSize v123" and p2: "2 < GetSize v123"
    by (simp_all add: GetSize_def v123_def)
  show ?thesis
    using n w p1 p2 Erase_removes [OF n w p1] Erase_removes [OF n w p2]
    by (auto simp: GetSize_def elems_def v123_def)
qed

section \<open>Insertion with the copy overload\<close>

text \<open>
  C1. \<open>{1, 2, 3}\<close> after \<open>Reserve(4)\<close> has spare capacity. \<open>Insert\<close> of the
  lvalue 10 at \<open>begin() + 1\<close> returns normally with size 4, but the buffer the vector
  then holds is the one built by \<open>ArrayPtr<Type> copy(capacity_)\<close>: every element is
  \<open>int()\<close>, so the element at the position returned is 0 and not 10, and no old
  element is kept. The move overload at the same input gives \<open>{1, 10, 2, 3}\<close>.
\<close>

theorem Insert_copy_drops_contents:
  "SimpleVector_init int_elem [1, 2, 3] = Inr ((), v123) \<and>
   Reserve int_elem 4 v123 = Inr ((), \<lparr>data_m = [1, 2, 3, 0], size_m = 3, capacity_m = 4\<rparr>) \<and>
   Insert_copy int_elem 1 (Outside 10) \<lparr>data_m = [1, 2, 3, 0], size_m = 3, capacity_m = 4\<rparr> =
     Inr (1, \<lparr>data_m = [0, 0, 0, 0], size_m = 4, capacity_m = 4\<rparr>) \<and>
   Insert_move int_elem 1 (Outside 10) \<lparr>data_m = [1, 2, 3, 0], size_m = 3, capacity_m = 4\<rparr> =
     Inr (1, \<lparr>data_m = [1, 10, 2, 3], size_m = 4, capacity_m = 4\<rparr>)"
proof (intro conjI)
  show "SimpleVector_init int_elem [1, 2, 3] = Inr ((), v123)"
    by (simp add: run_defs)
  show "Reserve int_elem 4 v123 = Inr ((), \<lparr>data_m = [1, 2, 3, 0], size_m = 3, capacity_m = 4\<rparr>)"
    by (simp add: run_defs)
  show "Insert_copy int_elem 1 (Outside 10) \<lparr>data_m = [1, 2, 3, 0], size_m = 3, capacity_m = 4\<rparr> =
          Inr (1, \<lparr>data_m = [0, 0, 0, 0], size_m = 4, capacity_m = 4\<rparr>)"
    by (simp add: run_defs)
  show "Insert_move int_elem 1 (Outside 10) \<lparr>data_m = [1, 2, 3, 0], size_m = 3, capacity_m = 4\<rparr> =
          Inr (1, \<lparr>data_m = [1, 10, 2, 3], size_m = 4, capacity_m = 4\<rparr>)"
    by (simp add: run_defs)
qed

section \<open>Size and capacity\<close>

text \<open>
  C2. \<open>{1, 2, 3}\<close> is full. \<open>Insert\<close> of the lvalue 10 at \<open>begin() + 1\<close> first
  calls \<open>Resize(size_ + 1)\<close>, after which size and capacity are both 4 and the buffer
  has 4 slots; \<open>SecureInsert\<close> then shifts the range from offset 1 to \<open>end()\<close> one
  slot up, and the first write of that shift goes to offset 4, outside the buffer:
  the call has no defined result. The statements \<open>data_.swap(copy); ++size_;\<close> that
  the source runs after the shift leave the size at 5 with the capacity at 4.
\<close>

theorem Insert_copy_full_overruns:
  "SimpleVector_init int_elem [1, 2, 3] = Inr ((), v123) \<and>
   Resize int_elem (GetSize v123 + 1) v123 =
     Inr ((), \<lparr>data_m = [1, 2, 3, 0], size_m = 4, capacity_m = 4\<rparr>) \<and>
   std_copy_backward int_elem 1 4 5 [1, 2, 3, 0] = (Some OutOfBounds, [1, 2, 3, 0]) \<and>
   SecureInsert_copy int_elem 1 (Outside 10) \<lparr>data_m = [1, 2, 3, 0], size_m = 4, capacity_m = 4\<rparr> =
     Inl (OutOfBounds, \<lparr>data_m = [1, 2, 3, 0], size_m = 4, capacity_m = 4\<rparr>) \<and>
   Insert_copy int_elem 1 (Outside 10) v123 =
     Inl (OutOfBounds, \<lparr>data_m = [1, 2, 3, 0], size_m = 4, capacity_m = 4\<rparr>) \<and>
   GetSize (swap_and_count [0, 0, 0, 0]
              \<lparr>data_m = [1, 2, 3, 0 :: int], size_m = 4, capacity_m = 4\<rparr>) = 5 \<and>
   GetCapacity (swap_and_count [0, 0, 0, 0]
              \<lparr>data_m = [1, 2, 3, 0 :: int], size_m = 4, capacity_m = 4\<rparr>) = 4"
proof (intro conjI)
  show "SimpleVector_init int_elem [1, 2, 3] = Inr ((), v123)"
    by (simp add: run_defs)
  show "Resize int_elem (GetSize v123 + 1) v123 =
          Inr ((), \<lparr>data_m = [1, 2, 3, 0], size_m = 4, capacity_m = 4\<rparr>)"
    by (simp add: run_defs GetSize_def)
  show "std_copy_backward int_elem 1 4 5 [1, 2, 3, 0] = (Some OutOfBounds, [1, 2, 3, 0])"
    by (simp add: run_defs)
  show "SecureInsert_copy int_elem 1 (Outside 10) \<lparr>data_m = [1, 2, 3, 0], size_m = 4, capacity_m = 4\<rparr> =
          Inl (OutOfBounds, \<lparr>data_m = [1, 2, 3, 0], size_m = 4, capacity_m = 4\<rparr>)"
    by (simp add: run_defs)
  show "Insert_copy int_elem 1 (Outside 10) v123 =
          Inl (OutOfBounds, \<lparr>data_m = [1, 2, 3, 0], size_m = 4, capacity_m = 4\<rparr>)"
    by (simp add: run_defs)
  show "GetSize (swap_and_count [0, 0, 0, 0]
              \<lparr>data_m = [1, 2, 3, 0 :: int], size_m = 4, capacity_m = 4\<rparr>) = 5"
    by (simp add: swap_and_count_def GetSize_def)
  show "GetCapacity (swap_and_count [0, 0, 0, 0]
              \<lparr>data_m = [1, 2, 3, 0 :: int], size_m = 4, capacity_m = 4\<rparr>) = 4"
    by (simp add: swap_and_count_def GetCapacity_def)
qed

text \<open>
  C4. A vector constructed with \<open>Reserve(3)\<close>, after \<open>PushBack(1)\<close> and
  \<open>Erase(begin())\<close>, holds a buffer of one slot while \<open>GetCapacity()\<close> is still 3:
  \<open>Erase\<close> swaps in a buffer of \<open>size_\<close> slots and leaves \<open>capacity_\<close> as it
  was. The second \<open>PushBack\<close> after that finds \<open>size_ < capacity_\<close> and writes
  outside the buffer.
\<close>

theorem Erase_leaves_capacity_stale:
  "SimpleVector_reserve int_elem 3 =
     Inr ((), \<lparr>data_m = [0, 0, 0], size_m = 0, capacity_m = 3\<rparr>) \<and>
   PushBack_copy int_elem (Outside 1) \<lparr>data_m = [0, 0, 0], size_m = 0, capacity_m = 3\<rparr> =
     Inr ((), \<lparr>data_m = [1, 0, 0], size_m = 1, capacity_m = 3\<rparr>) \<and>
   Erase int_elem 0 \<lparr>data_m = [1, 0, 0], size_m = 1, capacity_m = 3\<rparr> =
     Inr (0, \<lparr>data_m = [0], size_m = 0, capacity_m = 3\<rparr>) \<and>
   GetCapacity \<lparr>data_m = [0 :: int], size_m = 0, capacity_m = 3\<rparr> = 3 \<and>
   length (data_m \<lparr>data_m = [0 :: int], size_m = 0, capacity_m = 3\<rparr>) = 1 \<and>
   PushBack_copy int_elem (Outside 5) \<lparr>data_m = [0], size_m = 0, capacity_m = 3\<rparr> =
     Inr ((), \<lparr>data_m = [5], size_m = 1, capacity_m = 3\<rparr>) \<and>
   PushBack_copy int_elem (Outside 6) \<lparr>data_m = [5], size_m = 1, capacity_m = 3\<rparr> =
     Inl (OutOfBounds, \<lparr>data_m = [5], size_m = 2, capacity_m = 3\<rparr>)"
proof (intro conjI)
  show "SimpleVector_reserve int_elem 3 =
          Inr ((), \<lparr>data_m = [0, 0, 0], size_m = 0, capacity_m = 3\<rparr>)"
    by (simp add: run_defs)
  show "PushBack_copy int_elem (Outside 1) \<lparr>data_m = [0, 0, 0], size_m = 0, capacity_m = 3\<rparr> =
          Inr ((), \<lparr>data_m = [1, 0, 0], size_m = 1, capacity_m = 3\<rparr>)"
    by (simp add: run_defs)
  show "Erase int_elem 0 \<lparr>data_m = [1, 0, 0], size_m = 1, capacity_m = 3\<rparr> =
          Inr (0, \<lparr>data_m = [0], size_m = 0, capacity_m = 3\<rparr>)"
    by (simp add: run_defs)
  show "GetCapacity \<lparr>data_m = [0 :: int], size_m = 0, capacity_m = 3\<rparr> = 3"
    by (simp add: GetCapacity_def)
  show "length (data_m \<lparr>data_m = [0 :: int], size_m = 0, capacity_m = 3\<rparr>) = 1"
    by simp
  show "PushBack_copy int_elem (Outside 5) \<lparr>data_m = [0], size_m = 0, capacity_m = 3\<rparr> =
          Inr ((), \<lparr>data_m = [5], size_m = 1, capacity_m = 3\<rparr>)"
    by (simp add: run_defs)
  show "PushBack_copy int_elem (Outside 6) \<lparr>data_m = [5], size_m = 1, capacity_m = 3\<rparr> =
          Inl (OutOfBounds, \<lparr>data_m = [5], size_m = 2, capacity_m = 3\<rparr>)"
    by (simp add: run_defs)
qed

section \<open>A copy that throws\<close>

text \<open>
  C5. The element type throws when the value 13 is copied. A vector constructed with
  \<open>Reserve(4)\<close> receives 13, 2 and 3 by the move overload of \<open>PushBack\<close>.
  \<open>Insert\<close> of an lvalue at \<open>begin()\<close> shifts the elements up on the vector's own
  buffer, from the last one down; the copy of 13 throws when 3 and 2 have been
  shifted. The exception leaves \<open>Insert\<close> with size and capacity as before and the
  elements \<open>{13, 2, 2}\<close> in place of \<open>{13, 2, 3}\<close>.
\<close>

theorem Insert_copy_throw_tears_elements:
  "SimpleVector_reserve copy13_elem 4 =
     Inr ((), \<lparr>data_m = [0, 0, 0, 0], size_m = 0, capacity_m = 4\<rparr>) \<and>
   PushBack_move copy13_elem (Outside 13) \<lparr>data_m = [0, 0, 0, 0], size_m = 0, capacity_m = 4\<rparr> =
     Inr ((), \<lparr>data_m = [13, 0, 0, 0], size_m = 1, capacity_m = 4\<rparr>) \<and>
   PushBack_move copy13_elem (Outside 2) \<lparr>data_m = [13, 0, 0, 0], size_m = 1, capacity_m = 4\<rparr> =
     Inr ((), \<lparr>data_m = [13, 2, 0, 0], size_m = 2, capacity_m = 4\<rparr>) \<and>
   PushBack_move copy13_elem (Outside 3) \<lparr>data_m = [13, 2, 0, 0], size_m = 2, capacity_m = 4\<rparr> =
     Inr ((), \<lparr>data_m = [13, 2, 3, 0], size_m = 3, capacity_m = 4\<rparr>) \<and>
   Insert_copy copy13_elem 0 (Outside 9) \<lparr>data_m = [13, 2, 3, 0], size_m = 3, capacity_m = 4\<rparr> =
     Inl (ElemThrow, \<lparr>data_m = [13, 2, 2, 3], size_m = 3, capacity_m = 4\<rparr>) \<and>
   elems \<lparr>data_m = [13, 2, 3, 0 :: int], size_m = 3, capacity_m = 4\<rparr> = [13, 2, 3] \<and>
   elems \<lparr>data_m = [13, 2, 2, 3 :: int], size_m = 3, capacity_m = 4\<rparr> = [13, 2, 2]"
proof (intro conjI)
  show "SimpleVector_reserve copy13_elem 4 =
          Inr ((), \<lparr>data_m = [0, 0, 0, 0], size_m = 0, capacity_m = 4\<rparr>)"
    by (simp add: run_defs)
  show "PushBack_move copy13_elem (Outside 13) \<lparr>data_m = [0, 0, 0, 0], size_m = 0, capacity_m = 4\<rparr> =
          Inr ((), \<lparr>data_m = [13, 0, 0, 0], size_m = 1, capacity_m = 4\<rparr>)"
    by (simp add: run_defs)
  show "PushBack_move copy13_elem (Outside 2) \<lparr>data_m = [13, 0, 0, 0], size_m = 1, capacity_m = 4\<rparr> =
          Inr ((), \<lparr>data_m = [13, 2, 0, 0], size_m = 2, capacity_m = 4\<rparr>)"
    by (simp add: run_defs)
  show "PushBack_move copy13_elem (Outside 3) \<lparr>data_m = [13, 2, 0, 0], size_m = 2, capacity_m = 4\<rparr> =
          Inr ((), \<lparr>data_m = [13, 2, 3, 0], size_m = 3, capacity_m = 4\<rparr>)"
    by (simp add: run_defs)
  show "Insert_copy copy13_elem 0 (Outside 9) \<lparr>data_m = [13, 2, 3, 0], size_m = 3, capacity_m = 4\<rparr> =
          Inl (ElemThrow, \<lparr>data_m = [13, 2, 2, 3], size_m = 3, capacity_m = 4\<rparr>)"
    by (simp add: run_defs)
  show "elems \<lparr>data_m = [13, 2, 3, 0 :: int], size_m = 3, capacity_m = 4\<rparr> = [13, 2, 3]"
    by (simp add: elems_def eval_nat_numeral)
  show "elems \<lparr>data_m = [13, 2, 2, 3 :: int], size_m = 3, capacity_m = 4\<rparr> = [13, 2, 2]"
    by (simp add: elems_def eval_nat_numeral)
qed

section \<open>Moving\<close>

text \<open>
  C3. The \<open>ArrayPtr\<close> at object address 1 holds the allocation at 4096. After the
  move constructor has built the object at address 0 from it, and likewise after a
  move assignment to the object at address 0, the source at address 1 still holds
  4096 and converts to \<open>true\<close>: both objects hold the same allocation. A move
  assignment of an object to itself changes nothing.
\<close>

theorem ArrayPtr_move_keeps_source:
  "ArrayPtr_bool (ArrayPtr_move_ctor 0 1 ptr_store_ex 1) \<and>
   raw_ptr_m (ArrayPtr_move_ctor 0 1 ptr_store_ex 0) = Some 4096 \<and>
   raw_ptr_m (ArrayPtr_move_ctor 0 1 ptr_store_ex 1) = Some 4096 \<and>
   ArrayPtr_bool (ArrayPtr_move_assign 0 1 ptr_store_ex 1) \<and>
   raw_ptr_m (ArrayPtr_move_assign 0 1 ptr_store_ex 0) = Some 4096 \<and>
   raw_ptr_m (ArrayPtr_move_assign 0 1 ptr_store_ex 1) = Some 4096 \<and>
   ArrayPtr_move_assign 1 1 ptr_store_ex = ptr_store_ex"
  by (simp add: ArrayPtr_bool_def ArrayPtr_move_ctor_def ArrayPtr_move_assign_def ptr_store_ex_def
                ArrayPtr_Get_def ArrayPtr_raw_def ArrayPtr_default_def)

text \<open>
  C6, as stated, fails for the move assignment: with \<open>{7}\<close> at address 0 and
  \<open>{1, 2}\<close> at address 1, after the vector at 0 is move-assigned from the one at 1
  the source reports size 1 and is not empty.
\<close>

theorem move_assign_source_not_empty:
  "GetSize (SimpleVector_move_assign 0 1 vec_store_ex 1) = 1 \<and>
   \<not> IsEmpty (SimpleVector_move_assign 0 1 vec_store_ex 1)"
  by (simp add: SimpleVector_move_assign_def SimpleVector_swap_def vec_store_ex_def GetSize_def
                IsEmpty_def)

text \<open>
  C6, amended. Move construction from another vector gives the new vector the
  source's buffer, size and capacity and leaves the source empty, with size 0 and
  capacity 0. Move assignment from another vector exchanges the two: the target gets
  the source's buffer, size and capacity, and the source gets what the target had. Move
  assignment of a vector to itself changes nothing.
\<close>

theorem move_transfers:
  "(this \<noteq> other \<longrightarrow>
      SimpleVector_move_ctor this other s this = s other \<and>
      SimpleVector_move_ctor this other s other = SimpleVector_default \<and>
      GetSize (SimpleVector_move_ctor this other s other) = 0) \<and>
   (this \<noteq> other \<longrightarrow>
      SimpleVector_move_assign this other s this = s other \<and>
      SimpleVector_move_assign this other s other = s this) \<and>
   SimpleVector_move_assign this this s = s"
  by (simp add: SimpleVector_move_ctor_def SimpleVector_move_assign_def SimpleVector_swap_def
        SimpleVector_default_def GetSize_def)

theorem move_transfers_witness:
  "(0 :: nat) \<noteq> 1 \<and>
   SimpleVector_move_ctor 0 1 vec_store_ex 0 = \<lparr>data_m = [1, 2], size_m = 2, capacity_m = 2\<rparr> \<and>
   GetSize (SimpleVector_move_ctor 0 1 vec_store_ex 1) = 0 \<and>
   SimpleVector_move_assign 0 1 vec_store_ex 0 = \<lparr>data_m = [1, 2], size_m = 2, capacity_m = 2\<rparr> \<and>
   SimpleVector_move_assign 0 1 vec_store_ex 1 = \<lparr>data_m = [7], size_m = 1, capacity_m = 1\<rparr>"
proof -
  have e: "vec_store_ex 0 = \<lparr>data_m = [7], size_m = 1, capacity_m = 1\<rparr>"
          "vec_store_ex 1 = \<lparr>data_m = [1, 2], size_m = 2, capacity_m = 2\<rparr>"
    by (simp_all add: vec_store_ex_def)
  show ?thesis
    using move_transfers [of 0 1 vec_store_ex] e
    by (simp add: GetSize_def SimpleVector_default_def)
qed

end
